theory Spec2Isabelle
  imports Main "HOL-Library.Word"
begin

section \<open>JavaScript values\<close>

text \<open>
  A JavaScript string is a sequence of UTF-16 code units; the regular expression of
  \<^verbatim>\<open>copyVideoToStorage\<close> (no \<^verbatim>\<open>u\<close> flag), \<^verbatim>\<open>includes\<close> and \<^verbatim>\<open>startsWith\<close> all work
  on code units. String literals of the source are written \<open>lit ''...''\<close>.
\<close>

type_synonym jschar = "16 word"
type_synonym jsstring = "jschar list"

definition lit :: "string \<Rightarrow> jsstring" where
  "lit s = map of_char s"

text \<open>A thrown \<^verbatim>\<open>Error\<close>; the code only ever reads its \<^verbatim>\<open>message\<close>.\<close>

datatype js_error = Error (message: jsstring)

text \<open>
  The template literal \<^verbatim>\<open>${timestamp}\<close> prints an integer number in decimal
  (\<^verbatim>\<open>Date.now()\<close> is an integer far below the range where JavaScript switches to
  exponent notation).
\<close>

fun digits :: "nat \<Rightarrow> jsstring" where
  "digits n = (if n < 10 then [of_nat (48 + n)]
               else digits (n div 10) @ [of_nat (48 + n mod 10)])"

declare digits.simps [simp del]

definition numberToString :: "int \<Rightarrow> jsstring" where
  "numberToString n = (if n < 0 then lit ''-'' @ digits (nat (- n)) else digits (nat n))"

section \<open>Data model (src/store/useVideoStore.ts)\<close>

text \<open>
  \<^verbatim>\<open>interface VideoMetadata { id; name; size; path; createdAt }\<close>. The fields
  \<^verbatim>\<open>id\<close> and \<^verbatim>\<open>size\<close> carry a prime because \<open>id\<close> and \<open>size\<close> are constants of HOL.
\<close>

record VideoMetadata =
  id' :: jsstring
  name :: jsstring
  size' :: int
  path :: jsstring
  createdAt :: int

text \<open>The state part of \<^verbatim>\<open>interface VideoStore\<close>.\<close>

record VideoStore =
  videos :: "VideoMetadata list"
  isLoading :: bool
  error :: "jsstring option"
  selectedVideo :: "VideoMetadata option"

section \<open>The native libraries, as parameters\<close>

text \<open>
  Everything outside JavaScript is the \<^emph>\<open>world\<close>: the contents of AsyncStorage, a map
  from keys to string values, and the state \<open>'d\<close> of the device (file system, clock),
  which stays opaque.
\<close>

record 'd world =
  storage :: "jsstring \<rightharpoonup> jsstring"
  device :: 'd

text \<open>
  \<^verbatim>\<open>RNFS.stat\<close> resolves to an object whose \<^verbatim>\<open>size\<close> the code accepts as a number or
  as a string, and whose \<^verbatim>\<open>originalFilepath\<close> may be missing.
\<close>

datatype StatSize = NumberSize int | StringSize jsstring

record StatResult =
  stat_size :: StatSize
  originalFilepath :: "jsstring option"

text \<open>
  The behaviour of react-native-fs, AsyncStorage and the JavaScript built-ins is not
  part of the repository; it is taken as a parameter \<open>N\<close>. A file-system call maps the
  device state to its outcome (\<open>Inl\<close>: the promise rejects) and the next device state,
  so a call that fails may still have changed the device (a partial copy). An
  AsyncStorage write either rejects with the error the parameter names, leaving the
  contents as they were, or stores the value.
\<close>

record 'd native =
  DocumentDirectoryPath :: jsstring
  Date_now :: "'d \<Rightarrow> int"
  decodeURIComponent :: "jsstring \<Rightarrow> js_error + jsstring"
  parseInt :: "jsstring \<Rightarrow> int"
  JSON_stringify :: "VideoMetadata list \<Rightarrow> jsstring"
  setItem_fault :: "jsstring \<Rightarrow> jsstring \<Rightarrow> 'd world \<Rightarrow> js_error option"
  removeItem_fault :: "jsstring \<Rightarrow> 'd world \<Rightarrow> js_error option"
  exists :: "jsstring \<Rightarrow> 'd \<Rightarrow> (js_error + bool) \<times> 'd"
  mkdir :: "jsstring \<Rightarrow> 'd \<Rightarrow> (js_error + unit) \<times> 'd"
  stat :: "jsstring \<Rightarrow> 'd \<Rightarrow> (js_error + StatResult) \<times> 'd"
  copyFile :: "jsstring \<Rightarrow> jsstring \<Rightarrow> 'd \<Rightarrow> (js_error + unit) \<times> 'd"
  unlink :: "jsstring \<Rightarrow> 'd \<Rightarrow> (js_error + unit) \<times> 'd"

definition AsyncStorage_setItem ::
  "'d native \<Rightarrow> jsstring \<Rightarrow> jsstring \<Rightarrow> 'd world \<Rightarrow> (js_error + unit) \<times> 'd world" where
  "AsyncStorage_setItem N k v w =
     (case setItem_fault N k v w of
        Some e \<Rightarrow> (Inl e, w)
      | None \<Rightarrow> (Inr (), w\<lparr>storage := (storage w)(k \<mapsto> v)\<rparr>))"

definition AsyncStorage_removeItem ::
  "'d native \<Rightarrow> jsstring \<Rightarrow> 'd world \<Rightarrow> (js_error + unit) \<times> 'd world" where
  "AsyncStorage_removeItem N k w =
     (case removeItem_fault N k w of
        Some e \<Rightarrow> (Inl e, w)
      | None \<Rightarrow> (Inr (), w\<lparr>storage := (storage w)(k := None)\<rparr>))"

definition on_device :: "('d \<Rightarrow> 'a \<times> 'd) \<Rightarrow> 'd world \<Rightarrow> 'a \<times> 'd world" where
  "on_device f w = (case f (device w) of (r, d) \<Rightarrow> (r, w\<lparr>device := d\<rparr>))"

definition RNFS_exists :: "'d native \<Rightarrow> jsstring \<Rightarrow> 'd world \<Rightarrow> (js_error + bool) \<times> 'd world" where
  "RNFS_exists N p = on_device (exists N p)"

definition RNFS_mkdir :: "'d native \<Rightarrow> jsstring \<Rightarrow> 'd world \<Rightarrow> (js_error + unit) \<times> 'd world" where
  "RNFS_mkdir N p = on_device (mkdir N p)"

definition RNFS_stat ::
  "'d native \<Rightarrow> jsstring \<Rightarrow> 'd world \<Rightarrow> (js_error + StatResult) \<times> 'd world" where
  "RNFS_stat N p = on_device (stat N p)"

definition RNFS_copyFile ::
  "'d native \<Rightarrow> jsstring \<Rightarrow> jsstring \<Rightarrow> 'd world \<Rightarrow> (js_error + unit) \<times> 'd world" where
  "RNFS_copyFile N src dst = on_device (copyFile N src dst)"

definition RNFS_unlink :: "'d native \<Rightarrow> jsstring \<Rightarrow> 'd world \<Rightarrow> (js_error + unit) \<times> 'd world" where
  "RNFS_unlink N p = on_device (unlink N p)"

section \<open>The file utilities (fileSystem module)\<close>

definition MIN_SIZE_BYTES :: int where
  "MIN_SIZE_BYTES = 5 * 1024 * 1024"

definition MAX_SIZE_BYTES :: int where
  "MAX_SIZE_BYTES = 2 * 1024 * 1024 * 1024"

definition VIDEO_DIR :: "'d native \<Rightarrow> jsstring" where
  "VIDEO_DIR N = DocumentDirectoryPath N @ lit ''/imported_videos''"

definition ensureVideoDirExists :: "'d native \<Rightarrow> 'd world \<Rightarrow> (js_error + unit) \<times> 'd world" where
  "ensureVideoDirExists N w =
     (case RNFS_exists N (VIDEO_DIR N) w of
        (Inl e, w1) \<Rightarrow> (Inl e, w1)
      | (Inr ex, w1) \<Rightarrow> if \<not> ex then RNFS_mkdir N (VIDEO_DIR N) w1 else (Inr (), w1))"

definition validateVideoSize :: "int \<Rightarrow> jsstring option" where
  "validateVideoSize sz =
     (if sz < MIN_SIZE_BYTES then Some (lit ''Video is too small (<5MB)'')
      else if sz > MAX_SIZE_BYTES then Some (lit ''Video is too large (>2GB)'')
      else None)"

text \<open>\<^verbatim>\<open>fileName.replace(/[^a-zA-Z0-9.]/g, '_')\<close>.\<close>

definition allowed :: "jschar \<Rightarrow> bool" where
  "allowed c \<longleftrightarrow>
     (of_char CHR ''a'' \<le> c \<and> c \<le> of_char CHR ''z'') \<or>
     (of_char CHR ''A'' \<le> c \<and> c \<le> of_char CHR ''Z'') \<or>
     (of_char CHR ''0'' \<le> c \<and> c \<le> of_char CHR ''9'') \<or>
     c = of_char CHR ''.''"

definition sanitize :: "jsstring \<Rightarrow> jsstring" where
  "sanitize fileName = map (\<lambda>c. if allowed c then c else of_char CHR ''_'') fileName"

text \<open>
  \<^verbatim>\<open>fileName ? ... : `video_${timestamp}.mp4`\<close>: \<open>None\<close> is \<^verbatim>\<open>undefined\<close>, and the
  empty string is falsy as well.
\<close>

definition safeName_of :: "jsstring option \<Rightarrow> int \<Rightarrow> jsstring" where
  "safeName_of fileName timestamp =
     (case fileName of
        None \<Rightarrow> lit ''video_'' @ numberToString timestamp @ lit ''.mp4''
      | Some f \<Rightarrow>
          if f \<noteq> [] then sanitize f
          else lit ''video_'' @ numberToString timestamp @ lit ''.mp4'')"

text \<open>
  \<^verbatim>\<open>typeof stats.size === 'string' ? parseInt(stats.size) : stats.size\<close>.
\<close>

definition sizeBytes_of :: "'d native \<Rightarrow> StatResult \<Rightarrow> int" where
  "sizeBytes_of N stats =
     (case stat_size stats of StringSize s \<Rightarrow> parseInt N s | NumberSize n \<Rightarrow> n)"

text \<open>
  The first steps of the \<^verbatim>\<open>try\<close> block: the source URI is decoded when it contains a
  percent sign, and a \<^verbatim>\<open>content://\<close> URI is resolved to the file path that
  \<^verbatim>\<open>RNFS.stat\<close> reports.
\<close>

definition processedUri_of :: "'d native \<Rightarrow> jsstring \<Rightarrow> js_error + jsstring" where
  "processedUri_of N sourceUri =
     (if of_char CHR ''%'' \<in> set sourceUri then decodeURIComponent N sourceUri
      else Inr sourceUri)"

definition actualPath_of ::
  "'d native \<Rightarrow> jsstring \<Rightarrow> 'd world \<Rightarrow> (js_error + jsstring) \<times> 'd world" where
  "actualPath_of N processedUri w =
     (if take 10 processedUri = lit ''content://'' then
        (case RNFS_stat N processedUri w of
           (Inl e, w1) \<Rightarrow> (Inl e, w1)
         | (Inr st, w1) \<Rightarrow>
             (case originalFilepath st of
                None \<Rightarrow> (Inl (Error (lit ''Cannot resolve real file path'')), w1)
              | Some p \<Rightarrow>
                  if p \<noteq> [] then (Inr p, w1)
                  else (Inl (Error (lit ''Cannot resolve real file path'')), w1)))
      else (Inr processedUri, w))"

text \<open>
  The body of the \<^verbatim>\<open>try\<close> block of \<^verbatim>\<open>copyVideoToStorage\<close>. (The local \<^verbatim>\<open>ext\<close>
  and the two clock readings around the copy are only computed or logged, never used.)
\<close>

definition copyVideoToStorage_try ::
  "'d native \<Rightarrow> jsstring \<Rightarrow> int \<Rightarrow> jsstring \<Rightarrow> jsstring \<Rightarrow> jsstring \<Rightarrow> 'd world
    \<Rightarrow> (js_error + VideoMetadata) \<times> 'd world" where
  "copyVideoToStorage_try N sourceUri timestamp safeName finalName destPath w =
     (case processedUri_of N sourceUri of
        Inl e \<Rightarrow> (Inl e, w)
      | Inr processedUri \<Rightarrow>
          (case actualPath_of N processedUri w of
             (Inl e, w1) \<Rightarrow> (Inl e, w1)
           | (Inr actualPath, w1) \<Rightarrow>
               (case RNFS_copyFile N actualPath destPath w1 of
                  (Inl e, w2) \<Rightarrow> (Inl e, w2)
                | (Inr u, w2) \<Rightarrow>
                    (case RNFS_stat N destPath w2 of
                       (Inl e, w3) \<Rightarrow> (Inl e, w3)
                     | (Inr stats, w3) \<Rightarrow>
                         (Inr \<lparr>id' = finalName, name = safeName,
                               size' = sizeBytes_of N stats, path = destPath,
                               createdAt = timestamp\<rparr>, w3)))))"

text \<open>The \<^verbatim>\<open>catch\<close> block: clean up the destination, then rethrow.\<close>

definition copyVideoToStorage_catch ::
  "'d native \<Rightarrow> jsstring \<Rightarrow> js_error \<Rightarrow> 'd world \<Rightarrow> (js_error + VideoMetadata) \<times> 'd world" where
  "copyVideoToStorage_catch N destPath err w =
     (case RNFS_exists N destPath w of
        (Inl e, w1) \<Rightarrow> (Inl e, w1)
      | (Inr ex, w1) \<Rightarrow>
          if ex then
            (case RNFS_unlink N destPath w1 of
               (Inl e, w2) \<Rightarrow> (Inl e, w2)
             | (Inr u, w2) \<Rightarrow> (Inl err, w2))
          else (Inl err, w1))"

definition finalName_of :: "int \<Rightarrow> jsstring \<Rightarrow> jsstring" where
  "finalName_of timestamp safeName = numberToString timestamp @ lit ''_'' @ safeName"

definition destPath_of :: "'d native \<Rightarrow> jsstring \<Rightarrow> jsstring" where
  "destPath_of N finalName = VIDEO_DIR N @ lit ''/'' @ finalName"

definition copyVideoToStorage ::
  "'d native \<Rightarrow> jsstring \<Rightarrow> jsstring option \<Rightarrow> 'd world \<Rightarrow> (js_error + VideoMetadata) \<times> 'd world" where
  "copyVideoToStorage N sourceUri fileName w =
     (case ensureVideoDirExists N w of
        (Inl e, w0) \<Rightarrow> (Inl e, w0)
      | (Inr u, w0) \<Rightarrow>
          (let timestamp = Date_now N (device w0);
               safeName = safeName_of fileName timestamp;
               finalName = finalName_of timestamp safeName;
               destPath = destPath_of N finalName
           in case copyVideoToStorage_try N sourceUri timestamp safeName finalName destPath w0 of
                (Inr meta, w1) \<Rightarrow> (Inr meta, w1)
              | (Inl err, w1) \<Rightarrow> copyVideoToStorage_catch N destPath err w1))"

section \<open>The store (src/store/useVideoStore.ts)\<close>

definition STORAGE_KEY :: jsstring where
  "STORAGE_KEY = lit ''@start_poc_videos''"

text \<open>
  A store action takes the store state and the world and returns both; none of the
  actions rejects, every error is caught and written to the \<^verbatim>\<open>error\<close> field.
\<close>

definition addVideos ::
  "'d native \<Rightarrow> VideoMetadata list \<Rightarrow> VideoStore \<times> 'd world \<Rightarrow> VideoStore \<times> 'd world" where
  "addVideos N newVideos = (\<lambda>(s, w).
     (let s1 = s\<lparr>isLoading := True, error := None\<rparr>;
          updatedVideos = videos s1 @ newVideos
      in case AsyncStorage_setItem N STORAGE_KEY (JSON_stringify N updatedVideos) w of
           (Inr u, w1) \<Rightarrow> (s1\<lparr>videos := updatedVideos, isLoading := False\<rparr>, w1)
         | (Inl e, w1) \<Rightarrow>
             (s1\<lparr>error := Some (lit ''Failed to save videos metadata''),
                 isLoading := False\<rparr>, w1)))"

definition clearVideos :: "'d native \<Rightarrow> VideoStore \<times> 'd world \<Rightarrow> VideoStore \<times> 'd world" where
  "clearVideos N = (\<lambda>(s, w).
     (let s1 = s\<lparr>isLoading := True, error := None\<rparr>
      in case AsyncStorage_removeItem N STORAGE_KEY w of
           (Inr u, w1) \<Rightarrow> (s1\<lparr>videos := [], isLoading := False\<rparr>, w1)
         | (Inl e, w1) \<Rightarrow>
             (s1\<lparr>error := Some (lit ''Failed to clear videos''), isLoading := False\<rparr>, w1)))"

text \<open>
  The \<^verbatim>\<open>try\<close> block of \<^verbatim>\<open>deleteVideo\<close>: the list is filtered and set first, then
  persisted, then the file is unlinked when it exists.
\<close>

definition deleteVideo_try ::
  "'d native \<Rightarrow> jsstring \<Rightarrow> VideoStore \<Rightarrow> 'd world \<Rightarrow> (js_error + unit) \<times> VideoStore \<times> 'd world"
  where
  "deleteVideo_try N i s w =
     (let currentVideos = videos s
      in case find (\<lambda>v. id' v = i) currentVideos of
           None \<Rightarrow> (Inl (Error (lit ''Video not found'')), s, w)
         | Some videoToDelete \<Rightarrow>
             (let updatedVideos = filter (\<lambda>v. id' v \<noteq> i) currentVideos;
                  s2 = s\<lparr>videos := updatedVideos\<rparr>
              in case AsyncStorage_setItem N STORAGE_KEY (JSON_stringify N updatedVideos) w of
                   (Inl e, w1) \<Rightarrow> (Inl e, s2, w1)
                 | (Inr u, w1) \<Rightarrow>
                     (case RNFS_exists N (path videoToDelete) w1 of
                        (Inl e, w2) \<Rightarrow> (Inl e, s2, w2)
                      | (Inr ex, w2) \<Rightarrow>
                          if ex then
                            (case RNFS_unlink N (path videoToDelete) w2 of
                               (Inl e, w3) \<Rightarrow> (Inl e, s2, w3)
                             | (Inr u', w3) \<Rightarrow> (Inr (), s2, w3))
                          else (Inr (), s2, w2))))"

definition deleteVideo ::
  "'d native \<Rightarrow> jsstring \<Rightarrow> VideoStore \<times> 'd world \<Rightarrow> VideoStore \<times> 'd world" where
  "deleteVideo N i = (\<lambda>(s, w).
     (case deleteVideo_try N i (s\<lparr>isLoading := True, error := None\<rparr>) w of
        (Inr u, s1, w1) \<Rightarrow> (s1\<lparr>isLoading := False\<rparr>, w1)
      | (Inl e, s1, w1) \<Rightarrow>
          (s1\<lparr>error := Some (lit ''Failed to delete video: '' @ message e),
              isLoading := False\<rparr>, w1)))"

definition setError :: "jsstring option \<Rightarrow> VideoStore \<Rightarrow> VideoStore" where
  "setError e s = s\<lparr>error := e\<rparr>"

section \<open>The import flow (handleSelectVideos of the select button)\<close>

text \<open>
  An entry of the picker's result: every field the code reads may be missing
  (\<open>None\<close>), and the code also treats an empty string and a size of zero as missing.
\<close>

record PickedAsset =
  picked_uri :: "jsstring option"
  picked_name :: "jsstring option"
  picked_size :: "int option"

text \<open>The standardised asset object pushed to \<^verbatim>\<open>validAssets\<close>.\<close>

record ValidAsset =
  asset_uri :: jsstring
  asset_name :: jsstring
  asset_size :: int

text \<open>\<^verbatim>\<open>asset.size || 0\<close> and \<^verbatim>\<open>asset.name || 'Video'\<close>.\<close>

definition size_or_0 :: "int option \<Rightarrow> int" where
  "size_or_0 s = (case s of None \<Rightarrow> 0 | Some n \<Rightarrow> if n \<noteq> 0 then n else 0)"

definition name_or_Video :: "jsstring option \<Rightarrow> jsstring" where
  "name_or_Video s = (case s of None \<Rightarrow> lit ''Video'' | Some n \<Rightarrow> if n \<noteq> [] then n else lit ''Video'')"

text \<open>
  The validation loop, \<^verbatim>\<open>for (const asset of assets)\<close>, with its two accumulators
  \<^verbatim>\<open>validAssets\<close> and \<^verbatim>\<open>errors\<close>.
\<close>

fun validateAssets ::
  "PickedAsset list \<Rightarrow> ValidAsset list \<Rightarrow> jsstring list \<Rightarrow> ValidAsset list \<times> jsstring list" where
  "validateAssets [] validAssets errors = (validAssets, errors)"
| "validateAssets (asset # assets) validAssets errors =
     (case picked_uri asset of
        None \<Rightarrow> validateAssets assets validAssets errors
      | Some uri \<Rightarrow>
          if uri = [] then validateAssets assets validAssets errors
          else
            (let sz = size_or_0 (picked_size asset);
                 nm = name_or_Video (picked_name asset)
             in case validateVideoSize sz of
                  Some sizeError \<Rightarrow>
                    validateAssets assets validAssets (errors @ [nm @ lit '': '' @ sizeError])
                | None \<Rightarrow>
                    validateAssets assets
                      (validAssets @ [\<lparr>asset_uri = uri, asset_name = nm, asset_size = sz\<rparr>])
                      errors))"

text \<open>
  The state the import loop works on: the store, the world, and the two locals
  \<^verbatim>\<open>errors\<close> and \<^verbatim>\<open>successCount\<close>. (The progress indicator and the alerts are
  component state of the button and do not reach the store or the files.)
\<close>

record 'd ImportState =
  store :: VideoStore
  wld :: "'d world"
  errors :: "jsstring list"
  successCount :: nat

text \<open>One iteration of \<^verbatim>\<open>for (let i = 0; i < validAssets.length; i++)\<close>.\<close>

definition importStep :: "'d native \<Rightarrow> ValidAsset \<Rightarrow> 'd ImportState \<Rightarrow> 'd ImportState" where
  "importStep N asset S =
     (case copyVideoToStorage N (asset_uri asset) (Some (asset_name asset)) (wld S) of
        (Inr meta, w1) \<Rightarrow>
          (case addVideos N [meta] (store S, w1) of
             (s2, w2) \<Rightarrow> S\<lparr>store := s2, wld := w2, successCount := successCount S + 1\<rparr>)
      | (Inl e, w1) \<Rightarrow>
          S\<lparr>wld := w1,
            errors := errors S @ [lit ''Failed to save '' @ asset_name asset @ lit '': '' @ message e]\<rparr>)"

fun importLoop :: "'d native \<Rightarrow> ValidAsset list \<Rightarrow> 'd ImportState \<Rightarrow> 'd ImportState" where
  "importLoop N [] S = S"
| "importLoop N (asset # validAssets) S = importLoop N validAssets (importStep N asset S)"

text \<open>
  \<^verbatim>\<open>handleSelectVideos\<close> from the point where the picker has returned \<^verbatim>\<open>assets\<close>:
  clear the store's error, validate, stop when nothing is valid, else import.
\<close>

definition handleSelectVideos ::
  "'d native \<Rightarrow> PickedAsset list \<Rightarrow> VideoStore \<times> 'd world \<Rightarrow> 'd ImportState" where
  "handleSelectVideos N assets = (\<lambda>(s, w).
     (case validateAssets assets [] [] of
        (validAssets, errs) \<Rightarrow>
          if length validAssets < 1 then
            \<lparr>store = setError None s, wld = w, errors = errs, successCount = 0\<rparr>
          else
            importLoop N validAssets
              \<lparr>store = setError None s, wld = w, errors = errs, successCount = 0\<rparr>))"

section \<open>Reference descriptions of the import loop's outcome\<close>

text \<open>
  Two descriptions in the words of the specification, to compare the loop with. The
  records a batch registers: in batch order, the metadata of every asset whose copy
  resolved and whose list was then persisted. The messages a batch reports: in batch
  order, one message for every asset whose copy rejected. Both follow the world from
  asset to asset as the loop leaves it.
\<close>

fun registeredMetadata ::
  "'d native \<Rightarrow> ValidAsset list \<Rightarrow> 'd ImportState \<Rightarrow> VideoMetadata list" where
  "registeredMetadata N [] S = []"
| "registeredMetadata N (asset # validAssets) S =
     (case copyVideoToStorage N (asset_uri asset) (Some (asset_name asset)) (wld S) of
        (Inr meta, w1) \<Rightarrow>
          (case setItem_fault N STORAGE_KEY
                  (JSON_stringify N (videos (store S) @ [meta])) w1 of
             None \<Rightarrow> [meta]
           | Some e \<Rightarrow> [])
      | (Inl e, w1) \<Rightarrow> [])
     @ registeredMetadata N validAssets (importStep N asset S)"

fun failureMessages ::
  "'d native \<Rightarrow> ValidAsset list \<Rightarrow> 'd ImportState \<Rightarrow> jsstring list" where
  "failureMessages N [] S = []"
| "failureMessages N (asset # validAssets) S =
     (case copyVideoToStorage N (asset_uri asset) (Some (asset_name asset)) (wld S) of
        (Inr meta, w1) \<Rightarrow> []
      | (Inl e, w1) \<Rightarrow>
          [lit ''Failed to save '' @ asset_name asset @ lit '': '' @ message e])
     @ failureMessages N validAssets (importStep N asset S)"

section \<open>A simulated device\<close>

text \<open>
  A small instance of the native parameter, to run the model on concrete inputs: the
  device is a list of files with their sizes and a clock that stands still. Three
  switches make every AsyncStorage write, every copy (leaving an empty file at the
  destination) or every unlink fail; a copy also fails when the source is missing.
\<close>

record SimDevice =
  files :: "(jsstring \<times> int) list"
  clock :: int

definition simNative :: "bool \<Rightarrow> bool \<Rightarrow> bool \<Rightarrow> SimDevice native" where
  "simNative setItemFails copyFails unlinkFails =
     \<lparr>DocumentDirectoryPath = lit ''/data'',
      Date_now = clock,
      decodeURIComponent = Inr,
      parseInt = (\<lambda>s. 0),
      JSON_stringify = (\<lambda>vs. lit ''['' @ concat (map id' vs) @ lit '']''),
      setItem_fault =
        (\<lambda>k v w. if setItemFails then Some (Error (lit ''storage full'')) else None),
      removeItem_fault = (\<lambda>k w. None),
      exists = (\<lambda>p d. (Inr (map_of (files d) p \<noteq> None), d)),
      mkdir = (\<lambda>p d. (Inr (), d)),
      stat =
        (\<lambda>p d. case map_of (files d) p of
                  None \<Rightarrow> (Inl (Error (lit ''ENOENT'')), d)
                | Some n \<Rightarrow> (Inr \<lparr>stat_size = NumberSize n, originalFilepath = None\<rparr>, d)),
      copyFile =
        (\<lambda>src dst d.
           if copyFails then
             (Inl (Error (lit ''copy failed'')), d\<lparr>files := (dst, 0) # files d\<rparr>)
           else
             (case map_of (files d) src of
                None \<Rightarrow> (Inl (Error (lit ''ENOENT'')), d)
              | Some n \<Rightarrow> (Inr (), d\<lparr>files := (dst, n) # files d\<rparr>))),
      unlink =
        (\<lambda>p d. if unlinkFails then (Inl (Error (lit ''unlink failed'')), d)
                else (Inr (), d\<lparr>files := filter (\<lambda>f. fst f \<noteq> p) (files d)\<rparr>))\<rparr>"

definition video :: "string \<Rightarrow> VideoMetadata" where
  "video n = \<lparr>id' = lit n, name = lit n, size' = 6000000,
              path = lit ''/data/imported_videos/'' @ lit n, createdAt = 1\<rparr>"

text \<open>
  A library of two imported videos, \<open>a\<close> and \<open>b\<close>, with their files and their persisted
  list, and one more file \<^verbatim>\<open>/in/a.mp4\<close> that can be imported.
\<close>

definition simStore :: VideoStore where
  "simStore = \<lparr>videos = [video ''a'', video ''b''], isLoading = False, error = None,
               selectedVideo = None\<rparr>"

definition simWorld :: "SimDevice world" where
  "simWorld =
     \<lparr>storage = [lit ''@start_poc_videos'' \<mapsto> lit ''[ab]''],
      device =
        \<lparr>files = [(lit ''/in/a.mp4'', 6000000),
                  (lit ''/data/imported_videos/a'', 6000000),
                  (lit ''/data/imported_videos/b'', 6000000)],
         clock = 1700000000000\<rparr>\<rparr>"

text \<open>
  A batch of two valid assets: the first names a source that does not exist, the second
  the importable file; \<open>importedVideo\<close> is the record the second one yields.
\<close>

definition missingAsset :: ValidAsset where
  "missingAsset =
     \<lparr>asset_uri = lit ''/in/missing.mp4'', asset_name = lit ''x.mp4'', asset_size = 6000000\<rparr>"

definition goodAsset :: ValidAsset where
  "goodAsset =
     \<lparr>asset_uri = lit ''/in/a.mp4'', asset_name = lit ''my video.mp4'', asset_size = 6000000\<rparr>"

definition simImport :: "SimDevice ImportState" where
  "simImport = \<lparr>store = simStore, wld = simWorld, errors = [], successCount = 0\<rparr>"

definition importedVideo :: VideoMetadata where
  "importedVideo =
     \<lparr>id' = lit ''1700000000000_my_video.mp4'', name = lit ''my_video.mp4'',
      size' = 6000000, path = lit ''/data/imported_videos/1700000000000_my_video.mp4'',
      createdAt = 1700000000000\<rparr>"

section \<open>Reference description of admission to the valid set\<close>

text \<open>
  An asset is admitted when its URI is present and not empty and the size check
  passes; the admitted asset is standardised to URI, name and size.
\<close>

definition admitted :: "PickedAsset \<Rightarrow> bool" where
  "admitted asset \<longleftrightarrow>
     picked_uri asset \<noteq> None \<and> picked_uri asset \<noteq> Some [] \<and>
     validateVideoSize (size_or_0 (picked_size asset)) = None"

definition standardised :: "PickedAsset \<Rightarrow> ValidAsset" where
  "standardised asset =
     \<lparr>asset_uri = the (picked_uri asset), asset_name = name_or_Video (picked_name asset),
      asset_size = size_or_0 (picked_size asset)\<rparr>"

section \<open>Running the model\<close>

lemmas run_defs =
  Let_def lit_def numberToString_def digits.simps
  on_device_def RNFS_exists_def RNFS_mkdir_def RNFS_stat_def RNFS_copyFile_def RNFS_unlink_def
  AsyncStorage_setItem_def AsyncStorage_removeItem_def
  VIDEO_DIR_def ensureVideoDirExists_def allowed_def sanitize_def safeName_of_def
  sizeBytes_of_def processedUri_of_def actualPath_of_def finalName_of_def destPath_of_def
  copyVideoToStorage_try_def copyVideoToStorage_catch_def copyVideoToStorage_def
  simNative_def simWorld_def simStore_def video_def STORAGE_KEY_def

lemmas import_defs =
  importStep_def addVideos_def missingAsset_def goodAsset_def simImport_def importedVideo_def

section \<open>The size check and admission to the valid set\<close>

lemma validateVideoSize_small:
  "validateVideoSize sz = Some (lit ''Video is too small (<5MB)'') \<longleftrightarrow> sz < 5 * 1024 * 1024"
  by (simp add: validateVideoSize_def MIN_SIZE_BYTES_def MAX_SIZE_BYTES_def lit_def)

lemma validateVideoSize_large:
  "validateVideoSize sz = Some (lit ''Video is too large (>2GB)'') \<longleftrightarrow>
     sz > 2 * 1024 * 1024 * 1024"
  by (simp add: validateVideoSize_def MIN_SIZE_BYTES_def MAX_SIZE_BYTES_def lit_def)

lemma validateVideoSize_null:
  "validateVideoSize sz = None \<longleftrightarrow> 5 * 1024 * 1024 \<le> sz \<and> sz \<le> 2 * 1024 * 1024 * 1024"
  by (auto simp add: validateVideoSize_def MIN_SIZE_BYTES_def MAX_SIZE_BYTES_def)

lemma validateAssets_valid:
  "fst (validateAssets assets validAssets errs) =
     validAssets @ map standardised (filter admitted assets)"
proof (induction assets arbitrary: validAssets errs)
  case Nil
  show ?case by simp
next
  case (Cons a assets)
  show ?case
  proof (cases "picked_uri a")
    case None
    then show ?thesis using Cons.IH by (simp add: admitted_def)
  next
    case (Some uri)
    show ?thesis
    proof (cases "uri = []")
      case True
      with Some show ?thesis using Cons.IH by (simp add: admitted_def)
    next
      case False
      with Some show ?thesis using Cons.IH
        by (cases "validateVideoSize (size_or_0 (picked_size a))")
           (simp_all add: admitted_def standardised_def Let_def)
    qed
  qed
qed

text \<open>
  C7, as stated, fails on the admission part: an asset whose size passes
  \<^verbatim>\<open>validateVideoSize\<close> but whose URI is the empty string is skipped by the guard
  \<^verbatim>\<open>if (!asset.uri) continue\<close> and never reaches the valid set.
\<close>

theorem admission_needs_uri_counterexample:
  "validateVideoSize (size_or_0 (Some 6000000)) = None \<and>
   fst (validateAssets
     [\<lparr>picked_uri = Some [], picked_name = Some (lit ''a.mp4''), picked_size = Some 6000000\<rparr>]
     [] []) = []"
  by (simp add: validateVideoSize_def MIN_SIZE_BYTES_def MAX_SIZE_BYTES_def size_or_0_def)

text \<open>
  C7, amended: for every integer size, \<^verbatim>\<open>validateVideoSize\<close> returns the too-small
  message exactly when the size is below 5 MiB, the too-large message exactly when it is
  above 2 GiB, and null exactly in between; and the valid set of the import flow is, in
  order, the standardised form of exactly those assets that have a non-empty URI and
  whose size (0 when missing) passes \<^verbatim>\<open>validateVideoSize\<close>.
\<close>

theorem validateVideoSize_bounds_and_admission:
  "(validateVideoSize sz = Some (lit ''Video is too small (<5MB)'') \<longleftrightarrow>
      sz < 5 * 1024 * 1024) \<and>
   (validateVideoSize sz = Some (lit ''Video is too large (>2GB)'') \<longleftrightarrow>
      sz > 2 * 1024 * 1024 * 1024) \<and>
   (validateVideoSize sz = None \<longleftrightarrow>
      5 * 1024 * 1024 \<le> sz \<and> sz \<le> 2 * 1024 * 1024 * 1024) \<and>
   fst (validateAssets assets [] []) = map standardised (filter admitted assets)"
  using validateVideoSize_small [of sz] validateVideoSize_large [of sz]
    validateVideoSize_null [of sz] validateAssets_valid [of assets "[]" "[]"]
  by simp

text \<open>
  The amended C7 at concrete inputs: the three outcomes of the size check, and a batch
  of two assets of which the second has no size and is rejected.
\<close>

theorem validateVideoSize_bounds_and_admission_witness:
  "validateVideoSize 6000000 = None \<and>
   validateVideoSize 5242879 = Some (lit ''Video is too small (<5MB)'') \<and>
   validateVideoSize 2147483649 = Some (lit ''Video is too large (>2GB)'') \<and>
   fst (validateAssets
     [\<lparr>picked_uri = Some (lit ''file:///a.mp4''), picked_name = None,
       picked_size = Some 6000000\<rparr>,
      \<lparr>picked_uri = Some (lit ''file:///b.mp4''), picked_name = Some (lit ''b.mp4''),
       picked_size = None\<rparr>]
     [] []) =
     [\<lparr>asset_uri = lit ''file:///a.mp4'', asset_name = lit ''Video'', asset_size = 6000000\<rparr>]"
  using validateVideoSize_bounds_and_admission [of 6000000
     "[\<lparr>picked_uri = Some (lit ''file:///a.mp4''), picked_name = None,
        picked_size = Some 6000000\<rparr>,
       \<lparr>picked_uri = Some (lit ''file:///b.mp4''), picked_name = Some (lit ''b.mp4''),
        picked_size = None\<rparr>]"]
    validateVideoSize_bounds_and_admission [of 5242879 "[]"]
    validateVideoSize_bounds_and_admission [of 2147483649 "[]"]
  by (simp add: admitted_def standardised_def size_or_0_def name_or_Video_def
      validateVideoSize_def MIN_SIZE_BYTES_def MAX_SIZE_BYTES_def lit_def)

section \<open>The store actions\<close>

lemma addVideos_cases:
  "addVideos N newVideos (s, w) =
     (case setItem_fault N STORAGE_KEY (JSON_stringify N (videos s @ newVideos)) w of
        None \<Rightarrow>
          (s\<lparr>isLoading := False, error := None, videos := videos s @ newVideos\<rparr>,
           w\<lparr>storage := (storage w)(STORAGE_KEY \<mapsto> JSON_stringify N (videos s @ newVideos))\<rparr>)
      | Some e \<Rightarrow>
          (s\<lparr>isLoading := False, error := Some (lit ''Failed to save videos metadata'')\<rparr>, w))"
  by (simp add: addVideos_def AsyncStorage_setItem_def Let_def split: option.splits)

lemma clearVideos_cases:
  "clearVideos N (s, w) =
     (case removeItem_fault N STORAGE_KEY w of
        None \<Rightarrow>
          (s\<lparr>isLoading := False, error := None, videos := []\<rparr>,
           w\<lparr>storage := (storage w)(STORAGE_KEY := None)\<rparr>)
      | Some e \<Rightarrow>
          (s\<lparr>isLoading := False, error := Some (lit ''Failed to clear videos'')\<rparr>, w))"
  by (simp add: clearVideos_def AsyncStorage_removeItem_def Let_def split: option.splits)

lemma deleteVideo_videos:
  "videos (fst (deleteVideo N i (s, w))) =
     (if \<exists>v \<in> set (videos s). id' v = i then filter (\<lambda>v. id' v \<noteq> i) (videos s)
      else videos s)"
  by (auto simp add: deleteVideo_def deleteVideo_try_def Let_def find_None_iff
        split: option.splits prod.splits sum.splits if_splits)

lemma filter_single:
  assumes "id' v = i" and "\<forall>u \<in> set (pre @ post). id' u \<noteq> i"
  shows "filter (\<lambda>u. id' u \<noteq> i) (pre @ v # post) = pre @ post"
  using assms by (simp add: filter_id_conv)

text \<open>
  C5: for every existing list and every list of new records, a successful
  \<^verbatim>\<open>addVideos(newVideos)\<close> (one that leaves the error field null) leaves the list
  equal to the existing list followed by \<open>newVideos\<close>: the old records keep their
  positions and contents, the new ones follow in the order given.
\<close>

theorem addVideos_appends:
  assumes "addVideos N newVideos (s, w) = (s', w')" and "error s' = None"
  shows "videos s' = videos s @ newVideos \<and>
         take (length (videos s)) (videos s') = videos s \<and>
         drop (length (videos s)) (videos s') = newVideos \<and>
         (\<forall>k < length (videos s). videos s' ! k = videos s ! k) \<and>
         (\<forall>k < length newVideos. videos s' ! (length (videos s) + k) = newVideos ! k)"
proof -
  have "videos s' = videos s @ newVideos"
    using assms by (auto simp add: addVideos_cases split: option.splits)
  then show ?thesis by (simp add: nth_append)
qed

text \<open>C5 on the simulated device: a third record is appended to the library of two.\<close>

theorem addVideos_appends_witness:
  "error (fst (addVideos (simNative False False False) [video ''c''] (simStore, simWorld))) =
     None \<and>
   videos (fst (addVideos (simNative False False False) [video ''c''] (simStore, simWorld))) =
     [video ''a'', video ''b'', video ''c'']"
proof -
  let ?r = "addVideos (simNative False False False) [video ''c''] (simStore, simWorld)"
  have h1: "?r = (fst ?r, snd ?r)" by simp
  have h2: "error (fst ?r) = None"
    by (simp add: addVideos_cases simNative_def)
  from addVideos_appends [OF h1 h2] h2 show ?thesis
    by (simp add: simStore_def)
qed

text \<open>
  C8: for every list of records and every id carried by exactly one record of the list
  (the list is \<open>pre @ v # post\<close> and no record of \<open>pre\<close> or \<open>post\<close> has the id),
  after \<^verbatim>\<open>deleteVideo(id)\<close> the list is \<open>pre @ post\<close>: only that record is gone, the
  others are unchanged and in their order. This holds whatever the persistence and the
  file system do.
\<close>

theorem deleteVideo_removes_only_match:
  assumes "videos s = pre @ v # post" and "id' v = i"
    and "\<forall>u \<in> set (pre @ post). id' u \<noteq> i"
  shows "videos (fst (deleteVideo N i (s, w))) = pre @ post"
  using assms(1,2) filter_single [OF assms(2,3)] by (simp add: deleteVideo_videos)

text \<open>C8 on the simulated device: deleting \<open>a\<close> from the library leaves \<open>b\<close>.\<close>

theorem deleteVideo_removes_only_match_witness:
  "videos (fst (deleteVideo (simNative False False False) (lit ''a'') (simStore, simWorld))) =
     [video ''b'']"
proof -
  have h1: "videos simStore = [] @ video ''a'' # [video ''b'']" by (simp add: simStore_def)
  have h2: "id' (video ''a'') = lit ''a''" by (simp add: video_def)
  have h3: "\<forall>u \<in> set ([] @ [video ''b'']). id' u \<noteq> lit ''a''"
    by (simp add: video_def lit_def)
  from deleteVideo_removes_only_match [OF h1 h2 h3] show ?thesis by simp
qed

text \<open>
  C10: for every list of records and every id that no record of the list carries,
  \<^verbatim>\<open>deleteVideo(id)\<close> leaves the list and the whole world (the persisted value and
  the files) as they were, sets the error field to
  \<^verbatim>\<open>'Failed to delete video: ' + 'Video not found'\<close> and ends with \<^verbatim>\<open>isLoading\<close> false.
\<close>

theorem deleteVideo_unknown_id:
  assumes "\<forall>v \<in> set (videos s). id' v \<noteq> i" and "deleteVideo N i (s, w) = (s', w')"
  shows "videos s' = videos s \<and> w' = w \<and> storage w' = storage w \<and>
         error s' = Some (lit ''Failed to delete video: '' @ lit ''Video not found'') \<and>
         isLoading s' = False"
proof -
  have "find (\<lambda>v. id' v = i) (videos s) = None"
    using assms(1) by (simp add: find_None_iff)
  then show ?thesis
    using assms(2) by (auto simp add: deleteVideo_def deleteVideo_try_def Let_def)
qed

text \<open>C10 on the simulated device: the id \<open>zz\<close> is not in the library.\<close>

theorem deleteVideo_unknown_id_witness:
  "deleteVideo (simNative False False False) (lit ''zz'') (simStore, simWorld) =
     (simStore\<lparr>isLoading := False,
        error := Some (lit ''Failed to delete video: Video not found'')\<rparr>, simWorld)"
proof -
  let ?d = "deleteVideo (simNative False False False) (lit ''zz'') (simStore, simWorld)"
  have h1: "\<forall>v \<in> set (videos simStore). id' v \<noteq> lit ''zz''"
    by (simp add: simStore_def video_def lit_def)
  have h2: "?d = (fst ?d, snd ?d)" by simp
  have e: "?d = (simStore\<lparr>isLoading := False,
        error := Some (lit ''Failed to delete video: Video not found'')\<rparr>, simWorld)"
    by (simp add: deleteVideo_def deleteVideo_try_def simStore_def video_def lit_def)
  from deleteVideo_unknown_id [OF h1 h2] e show ?thesis by simp
qed

text \<open>
  C2: \<^verbatim>\<open>deleteVideo\<close> is not transactional. Whenever a record with the id is present,
  the write of the filtered list succeeds, the file exists and its unlink rejects with
  \<open>e\<close>, the record is gone from the in-memory list and from the persisted list, the
  removal stays, and the only trace is the error field
  \<^verbatim>\<open>'Failed to delete video: ' + e.message\<close>.
\<close>

theorem deleteVideo_not_transactional:
  assumes "find (\<lambda>u. id' u = i) (videos s) = Some v"
    and "setItem_fault N STORAGE_KEY
           (JSON_stringify N (filter (\<lambda>u. id' u \<noteq> i) (videos s))) w = None"
    and "exists N (path v) (device w) = (Inr True, d1)"
    and "unlink N (path v) d1 = (Inl e, d2)"
    and "deleteVideo N i (s, w) = (s', w')"
  shows "v \<in> set (videos s) \<and> v \<notin> set (videos s') \<and>
         videos s' = filter (\<lambda>u. id' u \<noteq> i) (videos s) \<and>
         storage w' STORAGE_KEY = Some (JSON_stringify N (videos s')) \<and>
         error s' = Some (lit ''Failed to delete video: '' @ message e) \<and>
         isLoading s' = False \<and> device w' = d2"
proof -
  have v: "v \<in> set (videos s)" "id' v = i"
    using assms(1) by (auto simp add: find_Some_iff)
  have "deleteVideo_try N i (s\<lparr>isLoading := True, error := None\<rparr>) w =
          (Inl e, s\<lparr>isLoading := True, error := None,
                    videos := filter (\<lambda>u. id' u \<noteq> i) (videos s)\<rparr>,
           \<lparr>storage = (storage w)(STORAGE_KEY \<mapsto>
               JSON_stringify N (filter (\<lambda>u. id' u \<noteq> i) (videos s))), device = d2\<rparr>)"
    using assms(1-4)
    by (simp add: deleteVideo_try_def Let_def AsyncStorage_setItem_def RNFS_exists_def
          RNFS_unlink_def on_device_def)
  with assms(5) v show ?thesis
    by (auto simp add: deleteVideo_def)
qed

text \<open>
  C2 on the simulated device with failing unlink: such an execution exists. The record
  \<open>a\<close> is removed from the list and from the persisted list, and its file is still
  there.
\<close>

theorem deleteVideo_not_transactional_witness:
  "videos (fst (deleteVideo (simNative False False True) (lit ''a'') (simStore, simWorld))) =
     [video ''b''] \<and>
   storage (snd (deleteVideo (simNative False False True) (lit ''a'') (simStore, simWorld)))
     STORAGE_KEY = Some (lit ''[b]'') \<and>
   error (fst (deleteVideo (simNative False False True) (lit ''a'') (simStore, simWorld))) =
     Some (lit ''Failed to delete video: unlink failed'') \<and>
   map_of (files (device (snd (deleteVideo (simNative False False True) (lit ''a'')
     (simStore, simWorld))))) (lit ''/data/imported_videos/a'') = Some 6000000"
proof -
  let ?N = "simNative False False True"
  let ?d = "deleteVideo ?N (lit ''a'') (simStore, simWorld)"
  have h1: "find (\<lambda>u. id' u = lit ''a'') (videos simStore) = Some (video ''a'')"
    by (simp add: simStore_def video_def)
  have h2: "setItem_fault ?N STORAGE_KEY
              (JSON_stringify ?N (filter (\<lambda>u. id' u \<noteq> lit ''a'') (videos simStore)))
              simWorld = None"
    by (simp add: simNative_def)
  have h3: "exists ?N (path (video ''a'')) (device simWorld) = (Inr True, device simWorld)"
    by (simp add: simNative_def simWorld_def video_def lit_def)
  have h4: "unlink ?N (path (video ''a'')) (device simWorld) =
              (Inl (Error (lit ''unlink failed'')), device simWorld)"
    by (simp add: simNative_def)
  have h5: "?d = (fst ?d, snd ?d)" by simp
  have f: "filter (\<lambda>u. id' u \<noteq> lit ''a'') (videos simStore) = [video ''b'']"
    by (simp add: simStore_def video_def lit_def)
  have j: "JSON_stringify ?N [video ''b''] = lit ''[b]''"
    by (simp add: simNative_def video_def lit_def)
  from deleteVideo_not_transactional [OF h1 h2 h3 h4 h5] f j show ?thesis
    by (simp add: simWorld_def lit_def)
qed

subsection \<open>The persisted list\<close>

lemma addVideos_mirror:
  assumes "addVideos N newVideos (s, w) = (s', w')" and "error s' = None"
  shows "storage w' STORAGE_KEY = Some (JSON_stringify N (videos s'))"
  using assms by (auto simp add: addVideos_cases split: option.splits)

lemma clearVideos_mirror:
  assumes "clearVideos N (s, w) = (s', w')" and "error s' = None"
  shows "videos s' = [] \<and> storage w' STORAGE_KEY = None"
  using assms by (auto simp add: clearVideos_cases split: option.splits)

lemma deleteVideo_try_ok:
  assumes "deleteVideo_try N i s w = (Inr u, s', w')"
  shows "storage w' STORAGE_KEY = Some (JSON_stringify N (videos s'))"
  using assms
  by (auto simp add: deleteVideo_try_def Let_def AsyncStorage_setItem_def RNFS_exists_def
        RNFS_unlink_def on_device_def
        split: option.splits prod.splits sum.splits if_splits)

lemma deleteVideo_mirror:
  assumes "deleteVideo N i (s, w) = (s', w')" and "error s' = None"
  shows "storage w' STORAGE_KEY = Some (JSON_stringify N (videos s'))"
proof (cases "deleteVideo_try N i (s\<lparr>isLoading := True, error := None\<rparr>) w")
  case (fields r s1 w1)
  show ?thesis
  proof (cases r)
    case (Inl e)
    with fields assms show ?thesis by (auto simp add: deleteVideo_def)
  next
    case (Inr u)
    with fields assms deleteVideo_try_ok [of N i _ w u s1 w1] show ?thesis
      by (auto simp add: deleteVideo_def)
  qed
qed

text \<open>
  C4, as stated, fails for \<^verbatim>\<open>clearVideos\<close>: it removes the key, so after a successful
  \<^verbatim>\<open>clearVideos\<close> no value is stored under the key at all, where the claim expects
  the serialisation of the empty list.
\<close>

theorem clearVideos_removes_key_counterexample:
  "error (fst (clearVideos (simNative False False False) (simStore, simWorld))) = None \<and>
   videos (fst (clearVideos (simNative False False False) (simStore, simWorld))) = [] \<and>
   storage (snd (clearVideos (simNative False False False) (simStore, simWorld)))
     STORAGE_KEY = None \<and>
   storage (snd (clearVideos (simNative False False False) (simStore, simWorld)))
     STORAGE_KEY \<noteq>
     Some (JSON_stringify (simNative False False False)
       (videos (fst (clearVideos (simNative False False False) (simStore, simWorld)))))"
  by (simp add: clearVideos_cases simNative_def)

text \<open>
  C4, amended: the persisted list lives under the single key \<^verbatim>\<open>@start_poc_videos\<close>.
  After every successful \<^verbatim>\<open>addVideos\<close> or \<^verbatim>\<open>deleteVideo\<close> (error field null) the value
  under the key is the JSON serialisation of the store's current list; after every
  successful \<^verbatim>\<open>clearVideos\<close> the list is empty and the key holds no value.
\<close>

theorem persisted_mirror:
  "(addVideos N newVideos (s, w) = (s', w') \<and> error s' = None \<longrightarrow>
      storage w' STORAGE_KEY = Some (JSON_stringify N (videos s'))) \<and>
   (deleteVideo N i (s, w) = (s', w') \<and> error s' = None \<longrightarrow>
      storage w' STORAGE_KEY = Some (JSON_stringify N (videos s'))) \<and>
   (clearVideos N (s, w) = (s', w') \<and> error s' = None \<longrightarrow>
      videos s' = [] \<and> storage w' STORAGE_KEY = None) \<and>
   STORAGE_KEY = lit ''@start_poc_videos''"
  using addVideos_mirror deleteVideo_mirror clearVideos_mirror
  by (simp add: STORAGE_KEY_def) blast

text \<open>The amended C4 on the simulated device, for each of the three actions.\<close>

theorem persisted_mirror_witness:
  "error (fst (addVideos (simNative False False False) [video ''c''] (simStore, simWorld))) =
     None \<and>
   storage (snd (addVideos (simNative False False False) [video ''c''] (simStore, simWorld)))
     STORAGE_KEY = Some (lit ''[abc]'') \<and>
   error (fst (deleteVideo (simNative False False False) (lit ''a'') (simStore, simWorld))) =
     None \<and>
   storage (snd (deleteVideo (simNative False False False) (lit ''a'') (simStore, simWorld)))
     STORAGE_KEY = Some (lit ''[b]'') \<and>
   error (fst (clearVideos (simNative False False False) (simStore, simWorld))) = None \<and>
   storage (snd (clearVideos (simNative False False False) (simStore, simWorld)))
     STORAGE_KEY = None"
proof -
  let ?N = "simNative False False False"
  let ?a = "addVideos ?N [video ''c''] (simStore, simWorld)"
  let ?d = "deleteVideo ?N (lit ''a'') (simStore, simWorld)"
  let ?c = "clearVideos ?N (simStore, simWorld)"
  have a: "?a = (fst ?a, snd ?a) \<and> error (fst ?a) = None \<and>
           videos (fst ?a) = [video ''a'', video ''b'', video ''c'']"
    by (simp add: addVideos_cases simNative_def simStore_def)
  have d: "?d = (fst ?d, snd ?d) \<and> error (fst ?d) = None \<and> videos (fst ?d) = [video ''b'']"
    by (simp add: deleteVideo_def deleteVideo_try_def run_defs)
  have c: "?c = (fst ?c, snd ?c) \<and> error (fst ?c) = None"
    by (simp add: clearVideos_cases simNative_def)
  have j: "JSON_stringify ?N [video ''a'', video ''b'', video ''c''] = lit ''[abc]''"
      "JSON_stringify ?N [video ''b''] = lit ''[b]''"
    by (simp_all add: simNative_def video_def lit_def)
  from persisted_mirror [of ?N "[video ''c'']" simStore simWorld "fst ?a" "snd ?a"]
    persisted_mirror [of ?N _ simStore simWorld "fst ?d" "snd ?d" "lit ''a''"]
    persisted_mirror [of ?N _ simStore simWorld "fst ?c" "snd ?c"]
    a d c j
  show ?thesis by simp
qed

section \<open>Copying a video into storage\<close>

lemma copyVideoToStorage_catch_Inl:
  "\<exists>e' w'. copyVideoToStorage_catch N dest err w = (Inl e', w')"
  by (simp add: copyVideoToStorage_catch_def split: prod.splits sum.splits)

lemma copyVideoToStorage_try_Inr:
  assumes "copyVideoToStorage_try N sourceUri ts safe fin dest w = (Inr m, w')"
  shows "id' m = fin \<and> name m = safe \<and> path m = dest \<and> createdAt m = ts \<and>
         (\<exists>src wa wb stats.
            RNFS_copyFile N src dest wa = (Inr (), wb) \<and>
            RNFS_stat N dest wb = (Inr stats, w') \<and> size' m = sizeBytes_of N stats)"
  using assms
  by (auto simp add: copyVideoToStorage_try_def split: prod.splits sum.splits) blast

lemma copyVideoToStorage_Inr:
  assumes "copyVideoToStorage N sourceUri fileName w = (Inr m, w')"
  shows "\<exists>w0. ensureVideoDirExists N w = (Inr (), w0) \<and>
           copyVideoToStorage_try N sourceUri (Date_now N (device w0))
             (safeName_of fileName (Date_now N (device w0)))
             (finalName_of (Date_now N (device w0))
                (safeName_of fileName (Date_now N (device w0))))
             (destPath_of N (finalName_of (Date_now N (device w0))
                (safeName_of fileName (Date_now N (device w0))))) w0 = (Inr m, w')"
proof (cases "ensureVideoDirExists N w")
  case (Pair r w0)
  show ?thesis
  proof (cases r)
    case (Inl e)
    with Pair assms show ?thesis by (simp add: copyVideoToStorage_def)
  next
    case (Inr u)
    let ?ts = "Date_now N (device w0)"
    let ?safe = "safeName_of fileName ?ts"
    let ?fin = "finalName_of ?ts ?safe"
    let ?dest = "destPath_of N ?fin"
    obtain r1 w1 where
      t: "copyVideoToStorage_try N sourceUri ?ts ?safe ?fin ?dest w0 = (r1, w1)"
      by (cases "copyVideoToStorage_try N sourceUri ?ts ?safe ?fin ?dest w0")
    show ?thesis
    proof (cases r1)
      case (Inl err)
      with Pair Inr t assms copyVideoToStorage_catch_Inl [of N ?dest err w1]
      show ?thesis by (auto simp add: copyVideoToStorage_def Let_def)
    next
      case (Inr meta)
      with Pair \<open>r = Inr u\<close> t assms show ?thesis
        by (auto simp add: copyVideoToStorage_def Let_def)
    qed
  qed
qed

lemma copyVideoToStorage_Inr_file:
  assumes "copyVideoToStorage N sourceUri fileName w = (Inr m, w')"
  shows "path m = VIDEO_DIR N @ lit ''/'' @ id' m \<and>
         (\<exists>src wa wb stats.
            RNFS_copyFile N src (path m) wa = (Inr (), wb) \<and>
            RNFS_stat N (path m) wb = (Inr stats, w') \<and> size' m = sizeBytes_of N stats)"
proof -
  from copyVideoToStorage_Inr [OF assms] obtain w0 ts safe where
    t: "copyVideoToStorage_try N sourceUri ts safe (finalName_of ts safe)
          (destPath_of N (finalName_of ts safe)) w0 = (Inr m, w')"
    by blast
  from copyVideoToStorage_try_Inr [OF t] show ?thesis
    by (auto simp add: destPath_of_def)
qed

lemma sim_copy_ok:
  "copyVideoToStorage (simNative b False u) (lit ''/in/a.mp4'') (Some (lit ''my video.mp4''))
     simWorld =
     (Inr importedVideo,
      simWorld\<lparr>device := (device simWorld)\<lparr>files :=
         (lit ''/data/imported_videos/1700000000000_my_video.mp4'', 6000000) #
           files (device simWorld)\<rparr>\<rparr>)"
  by (simp add: run_defs importedVideo_def)

text \<open>
  C6, as stated, fails for the empty file name: the empty string is a defined
  \<^verbatim>\<open>fileName\<close>, its sanitised form is the empty string, but the code's test
  \<^verbatim>\<open>fileName ? ... : ...\<close> treats it like \<^verbatim>\<open>undefined\<close> and names the record
  \<^verbatim>\<open>video_<timestamp>.mp4\<close>.
\<close>

theorem empty_fileName_counterexample:
  "fst (copyVideoToStorage (simNative False False False) (lit ''/in/a.mp4'') (Some [])
      simWorld) =
     Inr \<lparr>id' = lit ''1700000000000_video_1700000000000.mp4'',
           name = lit ''video_1700000000000.mp4'', size' = 6000000,
           path = lit ''/data/imported_videos/1700000000000_video_1700000000000.mp4'',
           createdAt = 1700000000000\<rparr> \<and>
   sanitize [] = [] \<and>
   lit ''video_1700000000000.mp4'' \<noteq> sanitize []"
  by (simp add: run_defs)

text \<open>
  C6, amended: for every \<^verbatim>\<open>sourceUri\<close> and \<^verbatim>\<open>fileName\<close>, the metadata returned by a
  successful \<^verbatim>\<open>copyVideoToStorage\<close> has \<^verbatim>\<open>createdAt\<close> equal to the one timestamp the
  call takes (read once the video directory is ensured), \<^verbatim>\<open>name\<close> equal to the
  sanitised name, which is \<^verbatim>\<open>fileName\<close> with every code unit outside
  \<^verbatim>\<open>[a-zA-Z0-9.]\<close> replaced by an underscore, or \<^verbatim>\<open>video_<timestamp>.mp4\<close> when
  \<^verbatim>\<open>fileName\<close> is undefined or the empty string, and \<^verbatim>\<open>id\<close> equal to that
  timestamp, an underscore and the sanitised name.
\<close>

theorem copyVideoToStorage_identifier:
  assumes "copyVideoToStorage N sourceUri fileName w = (Inr m, w')"
  shows "(\<exists>w0. ensureVideoDirExists N w = (Inr (), w0) \<and>
               createdAt m = Date_now N (device w0)) \<and>
         name m =
           (if fileName = None \<or> fileName = Some []
            then lit ''video_'' @ numberToString (createdAt m) @ lit ''.mp4''
            else map (\<lambda>c. if allowed c then c else of_char CHR ''_'') (the fileName)) \<and>
         id' m = numberToString (createdAt m) @ lit ''_'' @ name m"
proof -
  from copyVideoToStorage_Inr [OF assms] obtain w0 where
    e: "ensureVideoDirExists N w = (Inr (), w0)" and
    t: "copyVideoToStorage_try N sourceUri (Date_now N (device w0))
             (safeName_of fileName (Date_now N (device w0)))
             (finalName_of (Date_now N (device w0))
                (safeName_of fileName (Date_now N (device w0))))
             (destPath_of N (finalName_of (Date_now N (device w0))
                (safeName_of fileName (Date_now N (device w0))))) w0 = (Inr m, w')"
    by blast
  from copyVideoToStorage_try_Inr [OF t] have
    m: "id' m = finalName_of (Date_now N (device w0))
                  (safeName_of fileName (Date_now N (device w0)))"
       "name m = safeName_of fileName (Date_now N (device w0))"
       "createdAt m = Date_now N (device w0)"
    by simp_all
  from e m show ?thesis
    by (auto simp add: finalName_of_def safeName_of_def sanitize_def split: option.splits)
qed

text \<open>
  The amended C6 on the simulated device: \<^verbatim>\<open>my video.mp4\<close> imported at time
  1700000000000.
\<close>

theorem copyVideoToStorage_identifier_witness:
  "fst (copyVideoToStorage (simNative False False False) (lit ''/in/a.mp4'')
      (Some (lit ''my video.mp4'')) simWorld) =
     Inr \<lparr>id' = lit ''1700000000000_my_video.mp4'', name = lit ''my_video.mp4'',
           size' = 6000000, path = lit ''/data/imported_videos/1700000000000_my_video.mp4'',
           createdAt = 1700000000000\<rparr> \<and>
   numberToString 1700000000000 @ lit ''_'' @
     map (\<lambda>c. if allowed c then c else of_char CHR ''_'') (lit ''my video.mp4'') =
     lit ''1700000000000_my_video.mp4''"
proof -
  have a: "fst (copyVideoToStorage (simNative False False False) (lit ''/in/a.mp4'')
      (Some (lit ''my video.mp4'')) simWorld) =
     Inr \<lparr>id' = lit ''1700000000000_my_video.mp4'', name = lit ''my_video.mp4'',
           size' = 6000000, path = lit ''/data/imported_videos/1700000000000_my_video.mp4'',
           createdAt = 1700000000000\<rparr>"
    by (simp add: sim_copy_ok importedVideo_def)
  have b: "numberToString 1700000000000 @ lit ''_'' @
     map (\<lambda>c. if allowed c then c else of_char CHR ''_'') (lit ''my video.mp4'') =
     lit ''1700000000000_my_video.mp4''"
    by (simp add: lit_def allowed_def numberToString_def digits.simps)
  from copyVideoToStorage_identifier [OF sim_copy_ok [of False False]] a b
  show ?thesis by blast
qed

text \<open>
  C9, as stated, fails when the cleanup itself fails: here the copy rejects with
  \<^verbatim>\<open>copy failed\<close> and leaves a partial file, the unlink of the catch block rejects
  with \<^verbatim>\<open>unlink failed\<close>, and the caller receives the unlink's error while the
  partial file is still at the destination.
\<close>

theorem cleanup_failure_masks_error_counterexample:
  "fst (copyFile (simNative False True True) (lit ''/in/a.mp4'')
      (lit ''/data/imported_videos/1700000000000_a.mp4'') (device simWorld)) =
     Inl (Error (lit ''copy failed'')) \<and>
   fst (copyVideoToStorage (simNative False True True) (lit ''/in/a.mp4'')
      (Some (lit ''a.mp4'')) simWorld) = Inl (Error (lit ''unlink failed'')) \<and>
   map_of (files (device (snd (copyVideoToStorage (simNative False True True)
      (lit ''/in/a.mp4'') (Some (lit ''a.mp4'')) simWorld))))
      (lit ''/data/imported_videos/1700000000000_a.mp4'') = Some 0"
  by (simp add: run_defs)

text \<open>
  C9, amended: for every \<^verbatim>\<open>sourceUri\<close> and \<^verbatim>\<open>fileName\<close>, if a step of the
  \<^verbatim>\<open>try\<close> block (decoding, resolving, copying, or the stat of the copy) fails with
  \<open>err\<close>, no metadata record is returned; the catch block asks whether the destination
  exists and, if so, unlinks it; when these cleanup calls succeed, \<open>err\<close> itself is
  rethrown unchanged, from the world the cleanup left; when the existence check or the
  unlink rejects, that rejection is what the caller receives.
\<close>

theorem copyVideoToStorage_cleanup:
  assumes "ensureVideoDirExists N w = (Inr (), w0)"
    and "ts = Date_now N (device w0)"
    and "safe = safeName_of fileName ts"
    and "dest = destPath_of N (finalName_of ts safe)"
    and "copyVideoToStorage_try N sourceUri ts safe (finalName_of ts safe) dest w0 =
           (Inl err, w1)"
  shows "(\<forall>m w'. copyVideoToStorage N sourceUri fileName w \<noteq> (Inr m, w')) \<and>
         (RNFS_exists N dest w1 = (Inr False, w2) \<longrightarrow>
            copyVideoToStorage N sourceUri fileName w = (Inl err, w2)) \<and>
         (RNFS_exists N dest w1 = (Inr True, w2) \<and> RNFS_unlink N dest w2 = (Inr (), w3) \<longrightarrow>
            copyVideoToStorage N sourceUri fileName w = (Inl err, w3)) \<and>
         (RNFS_exists N dest w1 = (Inl e, w2) \<longrightarrow>
            copyVideoToStorage N sourceUri fileName w = (Inl e, w2)) \<and>
         (RNFS_exists N dest w1 = (Inr True, w2) \<and> RNFS_unlink N dest w2 = (Inl e, w3) \<longrightarrow>
            copyVideoToStorage N sourceUri fileName w = (Inl e, w3))"
proof -
  have c: "copyVideoToStorage N sourceUri fileName w = copyVideoToStorage_catch N dest err w1"
    using assms by (simp add: copyVideoToStorage_def Let_def)
  from copyVideoToStorage_catch_Inl [of N dest err w1] c
  have "\<forall>m w'. copyVideoToStorage N sourceUri fileName w \<noteq> (Inr m, w')" by auto
  then show ?thesis unfolding c
    by (auto simp add: copyVideoToStorage_catch_def)
qed

text \<open>
  The amended C9 on the simulated device with failing copy and working unlink: the
  partial file is removed again and the copy's own error reaches the caller.
\<close>

theorem copyVideoToStorage_cleanup_witness:
  "copyVideoToStorage (simNative False True False) (lit ''/in/a.mp4'') (Some (lit ''a.mp4''))
      simWorld = (Inl (Error (lit ''copy failed'')), simWorld)"
proof -
  let ?N = "simNative False True False"
  let ?dest = "lit ''/data/imported_videos/1700000000000_a.mp4''"
  let ?w1 = "simWorld\<lparr>device :=
               (device simWorld)\<lparr>files := (?dest, 0) # files (device simWorld)\<rparr>\<rparr>"
  have h1: "ensureVideoDirExists ?N simWorld = (Inr (), simWorld)"
    by (simp add: run_defs)
  have h2: "1700000000000 = Date_now ?N (device simWorld)"
    by (simp add: run_defs)
  have h3: "lit ''a.mp4'' = safeName_of (Some (lit ''a.mp4'')) 1700000000000"
    by (simp add: run_defs)
  have h4: "?dest = destPath_of ?N (finalName_of 1700000000000 (lit ''a.mp4''))"
    by (simp add: run_defs)
  have h5: "copyVideoToStorage_try ?N (lit ''/in/a.mp4'') 1700000000000 (lit ''a.mp4'')
              (finalName_of 1700000000000 (lit ''a.mp4'')) ?dest simWorld =
              (Inl (Error (lit ''copy failed'')), ?w1)"
    by (simp add: run_defs)
  have h6: "RNFS_exists ?N ?dest ?w1 = (Inr True, ?w1)"
    by (simp add: run_defs)
  have h7: "RNFS_unlink ?N ?dest ?w1 = (Inr (), simWorld)"
    by (simp add: run_defs)
  from copyVideoToStorage_cleanup [OF h1 h2 h3 h4 h5, of ?w1 simWorld] h6 h7
  show ?thesis by simp
qed

section \<open>The import loop\<close>

lemma importStep_Inl:
  assumes "copyVideoToStorage N (asset_uri a) (Some (asset_name a)) (wld S) = (Inl e, w1)"
  shows "importStep N a S =
           S\<lparr>wld := w1,
             errors := errors S @
               [lit ''Failed to save '' @ asset_name a @ lit '': '' @ message e]\<rparr>"
  using assms by (simp add: importStep_def)

lemma importStep_Inr:
  assumes "copyVideoToStorage N (asset_uri a) (Some (asset_name a)) (wld S) = (Inr meta, w1)"
  shows "importStep N a S =
           S\<lparr>store := fst (addVideos N [meta] (store S, w1)),
             wld := snd (addVideos N [meta] (store S, w1)),
             successCount := successCount S + 1\<rparr>"
  using assms by (simp add: importStep_def split: prod.splits)

lemma importStep_videos:
  "videos (store (importStep N a S)) = videos (store S) @ registeredMetadata N [a] S"
proof (cases "copyVideoToStorage N (asset_uri a) (Some (asset_name a)) (wld S)")
  case (Pair r w1)
  show ?thesis
  proof (cases r)
    case (Inl e)
    with Pair show ?thesis by (simp add: importStep_Inl)
  next
    case (Inr meta)
    with Pair show ?thesis
      by (simp add: importStep_Inr addVideos_cases split: option.splits)
  qed
qed

lemma importStep_errors:
  "errors (importStep N a S) = errors S @ failureMessages N [a] S"
proof (cases "copyVideoToStorage N (asset_uri a) (Some (asset_name a)) (wld S)")
  case (Pair r w1)
  show ?thesis
  proof (cases r)
    case (Inl e)
    with Pair show ?thesis by (simp add: importStep_Inl)
  next
    case (Inr meta)
    with Pair show ?thesis by (simp add: importStep_Inr)
  qed
qed

lemma importLoop_append:
  "importLoop N (xs @ ys) S = importLoop N ys (importLoop N xs S)"
  by (induction xs arbitrary: S) simp_all

lemma importLoop_videos:
  "videos (store (importLoop N assets S)) = videos (store S) @ registeredMetadata N assets S"
proof (induction assets arbitrary: S)
  case Nil
  show ?case by simp
next
  case (Cons a assets)
  have "videos (store (importLoop N (a # assets) S)) =
          videos (store (importStep N a S)) @ registeredMetadata N assets (importStep N a S)"
    using Cons.IH [of "importStep N a S"] by simp
  also have "\<dots> = videos (store S) @ registeredMetadata N (a # assets) S"
    by (simp add: importStep_videos)
  finally show ?case .
qed

lemma importLoop_errors:
  "errors (importLoop N assets S) = errors S @ failureMessages N assets S"
proof (induction assets arbitrary: S)
  case Nil
  show ?case by simp
next
  case (Cons a assets)
  have "errors (importLoop N (a # assets) S) =
          errors (importStep N a S) @ failureMessages N assets (importStep N a S)"
    using Cons.IH [of "importStep N a S"] by simp
  also have "\<dots> = errors S @ failureMessages N (a # assets) S"
    by (simp add: importStep_errors)
  finally show ?case .
qed

lemma sim_copy_missing:
  "copyVideoToStorage (simNative b False u) (asset_uri missingAsset)
     (Some (asset_name missingAsset)) simWorld = (Inl (Error (lit ''ENOENT'')), simWorld)"
  by (simp add: run_defs missingAsset_def)

lemma sim_copy_good:
  "fst (copyVideoToStorage (simNative b False u) (asset_uri goodAsset)
     (Some (asset_name goodAsset)) simWorld) = Inr importedVideo"
  by (simp add: sim_copy_ok goodAsset_def)

lemma sim_step_missing:
  "importStep (simNative b False u) missingAsset simImport =
     simImport\<lparr>errors := [lit ''Failed to save x.mp4: ENOENT'']\<rparr>"
  by (simp add: importStep_def sim_copy_missing simImport_def)
     (simp add: missingAsset_def lit_def)

lemma sim_step_good:
  "videos (store (importStep (simNative False False u) goodAsset
     (simImport\<lparr>errors := errs\<rparr>))) = [video ''a'', video ''b'', importedVideo]"
  by (simp add: run_defs import_defs)

lemma sim_step_good_unsaved:
  "videos (store (importStep (simNative True False u) goodAsset simImport)) =
     [video ''a'', video ''b''] \<and>
   errors (importStep (simNative True False u) goodAsset simImport) = []"
  by (simp add: run_defs import_defs)

text \<open>
  C3, as stated, fails when registering fails: \<^verbatim>\<open>addVideos\<close> catches the failed
  write itself, so the loop sees no exception. Here the copy of the asset succeeds and
  every AsyncStorage write fails: the record is not appended to the list although the
  asset was copied, and no message reaches the error list.
\<close>

theorem unsaved_copy_counterexample:
  "fst (copyVideoToStorage (simNative True False False) (asset_uri goodAsset)
     (Some (asset_name goodAsset)) (wld simImport)) = Inr importedVideo \<and>
   videos (store (importLoop (simNative True False False) [goodAsset] simImport)) =
     videos (store simImport) \<and>
   videos (store (importLoop (simNative True False False) [goodAsset] simImport)) \<noteq>
     videos (store simImport) @ [importedVideo] \<and>
   errors (importLoop (simNative True False False) [goodAsset] simImport) = []"
  using sim_copy_good [of True False] sim_step_good_unsaved [of False]
  by (simp add: simImport_def simStore_def)

text \<open>
  C3, amended: the import loop is sequential and continues past individual failures.
  For every batch of valid assets the assets are processed one at a time in batch order
  (the loop over \<open>done @ asset # rest\<close> runs the step for \<open>asset\<close> on the state the
  assets of \<open>done\<close> left, then goes on with \<open>rest\<close>, whatever happened before); if
  copying an asset fails, the message \<^verbatim>\<open>Failed to save <name>: <message>\<close> is appended
  to the error list and the store is untouched; a failure to persist inside
  \<^verbatim>\<open>addVideos\<close> appends no message. On completion the store's list is the pre-loop list
  followed, in batch order, by the metadata of exactly the assets that were copied and
  whose updated list was persisted, and the error list is the pre-loop error list
  followed, in batch order, by one message for every asset whose copy failed.
\<close>

theorem importLoop_outcome:
  "importLoop N (done @ asset # rest) S =
     importLoop N rest (importStep N asset (importLoop N done S)) \<and>
   (copyVideoToStorage N (asset_uri asset) (Some (asset_name asset)) (wld S) = (Inl e, w1) \<longrightarrow>
      importStep N asset S =
        S\<lparr>wld := w1,
          errors := errors S @
            [lit ''Failed to save '' @ asset_name asset @ lit '': '' @ message e]\<rparr>) \<and>
   videos (store (importLoop N assets S)) = videos (store S) @ registeredMetadata N assets S \<and>
   errors (importLoop N assets S) = errors S @ failureMessages N assets S"
  using importLoop_append [of N "done" "asset # rest" S] importStep_Inl [of N asset S e w1]
    importLoop_videos [of N assets S] importLoop_errors [of N assets S]
  by simp

text \<open>
  The amended C3 on the simulated device: of a batch of two, the first asset fails to
  copy (its source is missing) and the second is imported all the same.
\<close>

theorem importLoop_outcome_witness:
  "copyVideoToStorage (simNative False False False) (asset_uri missingAsset)
     (Some (asset_name missingAsset)) (wld simImport) =
     (Inl (Error (lit ''ENOENT'')), simWorld) \<and>
   importStep (simNative False False False) missingAsset simImport =
     simImport\<lparr>errors := [lit ''Failed to save x.mp4: ENOENT'']\<rparr> \<and>
   importLoop (simNative False False False) [missingAsset, goodAsset] simImport =
     importStep (simNative False False False) goodAsset
       (importStep (simNative False False False) missingAsset simImport) \<and>
   videos (store (importLoop (simNative False False False) [missingAsset, goodAsset]
     simImport)) = [video ''a'', video ''b'', importedVideo] \<and>
   errors (importLoop (simNative False False False) [missingAsset, goodAsset] simImport) =
     [lit ''Failed to save x.mp4: ENOENT'']"
proof -
  let ?N = "simNative False False False"
  have c: "copyVideoToStorage ?N (asset_uri missingAsset) (Some (asset_name missingAsset))
             (wld simImport) = (Inl (Error (lit ''ENOENT'')), simWorld)"
    using sim_copy_missing [of False False] by (simp add: simImport_def)
  have s: "videos (store simImport) = [video ''a'', video ''b'']" "errors simImport = []"
    by (simp_all add: simImport_def simStore_def)
  have r: "registeredMetadata ?N [missingAsset, goodAsset] simImport = [importedVideo]"
    by (simp add: c sim_step_missing) (simp add: run_defs import_defs)
  have f: "failureMessages ?N [missingAsset, goodAsset] simImport =
             [lit ''Failed to save x.mp4: ENOENT'']"
    by (simp add: c sim_step_missing) (simp add: run_defs import_defs)
  have m: "lit ''Failed to save '' @ asset_name missingAsset @ lit '': '' @
             message (Error (lit ''ENOENT'')) = lit ''Failed to save x.mp4: ENOENT''"
    by (simp add: missingAsset_def lit_def)
  have w: "simImport\<lparr>wld := simWorld, errors := errors simImport @ xs\<rparr> =
             simImport\<lparr>errors := xs\<rparr>" for xs
    by (simp add: simImport_def)
  note t = importLoop_outcome [of ?N "[]" missingAsset "[goodAsset]" simImport
      "Error (lit ''ENOENT'')" simWorld "[missingAsset, goodAsset]"]
  from t c have st: "importStep ?N missingAsset simImport =
      simImport\<lparr>errors := [lit ''Failed to save x.mp4: ENOENT'']\<rparr>"
    unfolding m w by blast
  from t have sq: "importLoop ?N [missingAsset, goodAsset] simImport =
      importStep ?N goodAsset (importStep ?N missingAsset simImport)"
    by simp
  from t have v: "videos (store (importLoop ?N [missingAsset, goodAsset] simImport)) =
      videos (store simImport) @ registeredMetadata ?N [missingAsset, goodAsset] simImport"
    by blast
  from t have er: "errors (importLoop ?N [missingAsset, goodAsset] simImport) =
      errors simImport @ failureMessages ?N [missingAsset, goodAsset] simImport"
    by blast
  from c st sq v er show ?thesis unfolding r f s by simp
qed

subsection \<open>Only copied files are registered\<close>

lemma importStep_added:
  "\<exists>ms. videos (store (importStep N a S)) = videos (store S) @ ms \<and>
        (\<forall>m \<in> set ms.
           path m = VIDEO_DIR N @ lit ''/'' @ id' m \<and>
           (\<exists>src wa wb wc stats.
              RNFS_copyFile N src (path m) wa = (Inr (), wb) \<and>
              RNFS_stat N (path m) wb = (Inr stats, wc) \<and> size' m = sizeBytes_of N stats))"
proof (cases "copyVideoToStorage N (asset_uri a) (Some (asset_name a)) (wld S)")
  case (Pair r w1)
  show ?thesis
  proof (cases r)
    case (Inl e)
    with Pair have "videos (store (importStep N a S)) = videos (store S) @ []"
      by (simp add: importStep_Inl)
    then show ?thesis by fastforce
  next
    case (Inr meta)
    with Pair have
      c: "copyVideoToStorage N (asset_uri a) (Some (asset_name a)) (wld S) = (Inr meta, w1)"
      by simp
    have "videos (store (importStep N a S)) = videos (store S) @ [meta] \<or>
          videos (store (importStep N a S)) = videos (store S) @ []"
      using c by (simp add: importStep_Inr addVideos_cases split: option.splits)
    with copyVideoToStorage_Inr_file [OF c] show ?thesis by fastforce
  qed
qed

lemma importLoop_added:
  "\<exists>ms. videos (store (importLoop N assets S)) = videos (store S) @ ms \<and>
        (\<forall>m \<in> set ms.
           path m = VIDEO_DIR N @ lit ''/'' @ id' m \<and>
           (\<exists>src wa wb wc stats.
              RNFS_copyFile N src (path m) wa = (Inr (), wb) \<and>
              RNFS_stat N (path m) wb = (Inr stats, wc) \<and> size' m = sizeBytes_of N stats))"
proof (induction assets arbitrary: S)
  case Nil
  have "videos (store (importLoop N [] S)) = videos (store S) @ []" by simp
  then show ?case by fastforce
next
  case (Cons a assets)
  let ?P = "\<lambda>m. path m = VIDEO_DIR N @ lit ''/'' @ id' m \<and>
           (\<exists>src wa wb wc stats.
              RNFS_copyFile N src (path m) wa = (Inr (), wb) \<and>
              RNFS_stat N (path m) wb = (Inr stats, wc) \<and> size' m = sizeBytes_of N stats)"
  from importStep_added [of N a S] obtain ms1 where
    s1: "videos (store (importStep N a S)) = videos (store S) @ ms1" and
    p1: "\<forall>m \<in> set ms1. ?P m"
    by blast
  from Cons.IH [of "importStep N a S"] obtain ms2 where
    s2: "videos (store (importLoop N assets (importStep N a S))) =
           videos (store (importStep N a S)) @ ms2" and
    p2: "\<forall>m \<in> set ms2. ?P m"
    by blast
  have "videos (store (importLoop N (a # assets) S)) = videos (store S) @ (ms1 @ ms2)"
    using s1 s2 by simp
  moreover have "\<forall>m \<in> set (ms1 @ ms2). ?P m"
    using p1 p2 by auto
  ultimately show ?case by blast
qed

lemma importStep_Inr_registers:
  assumes "copyVideoToStorage N (asset_uri a) (Some (asset_name a)) (wld S) = (Inr meta, w1)"
  shows "(store (importStep N a S), wld (importStep N a S)) = addVideos N [meta] (store S, w1)"
  by (simp add: importStep_Inr [OF assms])

text \<open>
  C1: every record the import loop adds to the store belongs to a file that was copied
  into the video directory. For every asset the loop processes: when
  \<^verbatim>\<open>copyVideoToStorage\<close> rejects, the store is left as it was (\<^verbatim>\<open>addVideos\<close> is not
  invoked); when it resolves with a record, \<^verbatim>\<open>addVideos\<close> is invoked with exactly
  that record, in the world the copy left, and the record's path is the video directory,
  a slash and the record's id, and its size is what \<^verbatim>\<open>RNFS.stat\<close> of that path
  reported right after \<^verbatim>\<open>RNFS.copyFile\<close> into that path resolved. On completion
  the store's list is the pre-loop list followed by records that all are of this kind.
\<close>

theorem import_registers_only_copied:
  "(copyVideoToStorage N (asset_uri asset) (Some (asset_name asset)) (wld S) = (Inl e, w1) \<longrightarrow>
      store (importStep N asset S) = store S) \<and>
   (copyVideoToStorage N (asset_uri asset) (Some (asset_name asset)) (wld S) = (Inr meta, w1) \<longrightarrow>
      (store (importStep N asset S), wld (importStep N asset S)) =
        addVideos N [meta] (store S, w1) \<and>
      path meta = VIDEO_DIR N @ lit ''/'' @ id' meta \<and>
      (\<exists>src wa wb stats.
         RNFS_copyFile N src (path meta) wa = (Inr (), wb) \<and>
         RNFS_stat N (path meta) wb = (Inr stats, w1) \<and> size' meta = sizeBytes_of N stats)) \<and>
   (\<exists>ms. videos (store (importLoop N assets S)) = videos (store S) @ ms \<and>
        (\<forall>m \<in> set ms.
           path m = VIDEO_DIR N @ lit ''/'' @ id' m \<and>
           (\<exists>src wa wb wc stats.
              RNFS_copyFile N src (path m) wa = (Inr (), wb) \<and>
              RNFS_stat N (path m) wb = (Inr stats, wc) \<and> size' m = sizeBytes_of N stats)))"
proof (intro conjI impI)
  assume "copyVideoToStorage N (asset_uri asset) (Some (asset_name asset)) (wld S) = (Inl e, w1)"
  then show "store (importStep N asset S) = store S"
    by (simp add: importStep_Inl)
next
  assume c: "copyVideoToStorage N (asset_uri asset) (Some (asset_name asset)) (wld S) =
               (Inr meta, w1)"
  show "(store (importStep N asset S), wld (importStep N asset S)) =
          addVideos N [meta] (store S, w1)"
    by (rule importStep_Inr_registers [OF c])
  show "path meta = VIDEO_DIR N @ lit ''/'' @ id' meta"
    by (rule conjunct1 [OF copyVideoToStorage_Inr_file [OF c]])
  show "\<exists>src wa wb stats.
         RNFS_copyFile N src (path meta) wa = (Inr (), wb) \<and>
         RNFS_stat N (path meta) wb = (Inr stats, w1) \<and> size' meta = sizeBytes_of N stats"
    by (rule conjunct2 [OF copyVideoToStorage_Inr_file [OF c]])
next
  show "\<exists>ms. videos (store (importLoop N assets S)) = videos (store S) @ ms \<and>
        (\<forall>m \<in> set ms.
           path m = VIDEO_DIR N @ lit ''/'' @ id' m \<and>
           (\<exists>src wa wb wc stats.
              RNFS_copyFile N src (path m) wa = (Inr (), wb) \<and>
              RNFS_stat N (path m) wb = (Inr stats, wc) \<and> size' m = sizeBytes_of N stats))"
    by (rule importLoop_added)
qed

text \<open>
  C1 on the simulated device: in the batch of two, the asset that fails to copy leaves
  the store alone, and the one record added is that of the copied file, with the path
  and the size of the copy, which is on the device when the loop is done.
\<close>

theorem import_registers_only_copied_witness:
  "store (importStep (simNative False False False) missingAsset simImport) = store simImport \<and>
   fst (copyVideoToStorage (simNative False False False) (asset_uri goodAsset)
     (Some (asset_name goodAsset)) (wld simImport)) = Inr importedVideo \<and>
   videos (store (importStep (simNative False False False) goodAsset simImport)) =
     videos (store simImport) @ [importedVideo] \<and>
   path importedVideo = lit ''/data/imported_videos/'' @ id' importedVideo \<and>
   size' importedVideo = 6000000 \<and>
   videos (store (importLoop (simNative False False False) [missingAsset, goodAsset]
     simImport)) = videos (store simImport) @ [importedVideo] \<and>
   map_of (files (device (wld (importLoop (simNative False False False)
     [missingAsset, goodAsset] simImport)))) (path importedVideo) = Some 6000000"
proof -
  let ?N = "simNative False False False"
  let ?w1 = "simWorld\<lparr>device := (device simWorld)\<lparr>files :=
         (lit ''/data/imported_videos/1700000000000_my_video.mp4'', 6000000) #
           files (device simWorld)\<rparr>\<rparr>"
  have c: "copyVideoToStorage ?N (asset_uri missingAsset) (Some (asset_name missingAsset))
             (wld simImport) = (Inl (Error (lit ''ENOENT'')), simWorld)"
    using sim_copy_missing [of False False] by (simp add: simImport_def)
  have g: "copyVideoToStorage ?N (asset_uri goodAsset) (Some (asset_name goodAsset))
             (wld simImport) = (Inr importedVideo, ?w1)"
    using sim_copy_ok [of False False] by (simp add: simImport_def goodAsset_def)
  have a: "videos (fst (addVideos ?N [importedVideo] (store simImport, ?w1))) =
             videos (store simImport) @ [importedVideo]"
    by (simp add: addVideos_cases simNative_def)
  have b: "videos (store (importLoop ?N [missingAsset, goodAsset] simImport)) =
             videos (store simImport) @ [importedVideo]"
    using sim_step_good [of False "[lit ''Failed to save x.mp4: ENOENT'']"]
    by (simp add: sim_step_missing) (simp add: simImport_def simStore_def)
  have p: "path importedVideo = lit ''/data/imported_videos/'' @ id' importedVideo \<and>
           size' importedVideo = 6000000"
    by (simp add: importedVideo_def lit_def)
  have q: "map_of (files (device (wld (importLoop ?N [missingAsset, goodAsset] simImport))))
             (path importedVideo) = Some 6000000"
    by (simp add: sim_step_missing) (simp add: run_defs import_defs)
  note t1 = import_registers_only_copied [of ?N missingAsset simImport
      "Error (lit ''ENOENT'')" simWorld _ "[missingAsset, goodAsset]"]
  note t2 = import_registers_only_copied [of ?N goodAsset simImport _ ?w1 importedVideo
      "[missingAsset, goodAsset]"]
  from t1 c have r1: "store (importStep ?N missingAsset simImport) = store simImport"
    by blast
  from t2 g have "(store (importStep ?N goodAsset simImport),
        wld (importStep ?N goodAsset simImport)) =
      addVideos ?N [importedVideo] (store simImport, ?w1)"
    by blast
  then have "store (importStep ?N goodAsset simImport) =
      fst (addVideos ?N [importedVideo] (store simImport, ?w1))"
    by (metis fst_conv)
  with a have r2: "videos (store (importStep ?N goodAsset simImport)) =
      videos (store simImport) @ [importedVideo]"
    by simp
  from g have g': "fst (copyVideoToStorage ?N (asset_uri goodAsset) (Some (asset_name goodAsset))
      (wld simImport)) = Inr importedVideo"
    by simp
  from r1 g' r2 p b q show ?thesis by blast
qed

section \<open>The whole flow\<close>

text \<open>
  \<^verbatim>\<open>handleSelectVideos\<close> joins the two loops: when at least one asset is admitted, the
  import loop runs on the admitted assets, in the picker's order, starting from the
  messages the validation produced.
\<close>

lemma handleSelectVideos_imports_admitted:
  assumes "filter admitted assets \<noteq> []"
  shows "handleSelectVideos N assets (s, w) =
           importLoop N (map standardised (filter admitted assets))
             \<lparr>store = setError None s, wld = w,
              errors = snd (validateAssets assets [] []), successCount = 0\<rparr>"
proof (cases "validateAssets assets [] []")
  case (Pair validAssets errs)
  have "fst (validateAssets assets [] []) = map standardised (filter admitted assets)"
    using validateAssets_valid [of assets "[]" "[]"] by simp
  with Pair have v: "validAssets = map standardised (filter admitted assets)"
    by simp
  with assms have "validAssets \<noteq> []"
    by simp
  with Pair v show ?thesis
    by (simp add: handleSelectVideos_def)
qed

end
